theory Spec2Isabelle
  imports Complex_Main "HOL-Library.Word"
begin

section \<open>Basic types\<close>

text \<open>
  \<^verbatim>\<open>crypto.Hash\<close> is a 32-byte array, \<^verbatim>\<open>sectorID\<close> a 12-byte array; sector data is a
  byte slice. Go's \<^verbatim>\<open>uint64\<close>, \<^verbatim>\<open>uint32\<close> and \<^verbatim>\<open>uint16\<close> are words of that width:
  \<open>+\<close> and \<open>-\<close> wrap around as they do in Go.
\<close>

type_synonym Hash = "256 word"
type_synonym sectorID = "96 word"
type_synonym bytes = "8 word list"
type_synonym uint64 = "64 word"
type_synonym uint32 = "32 word"
type_synonym uint16 = "16 word"

section \<open>MDM cost model (package mdm, \<^verbatim>\<open>Cost\<close>)\<close>

record Cost =
  Compute :: uint64
  DiskAccesses :: uint64
  DiskRead :: uint64
  DiskWrite :: uint64
  Memory :: uint64

text \<open>\<^verbatim>\<open>Cost.Add\<close>: field by field, wrapping.\<close>

definition Cost_Add :: "Cost \<Rightarrow> Cost \<Rightarrow> Cost" where
  "Cost_Add c c2 =
     \<lparr>Compute = Compute c + Compute c2,
      DiskAccesses = DiskAccesses c + DiskAccesses c2,
      DiskRead = DiskRead c + DiskRead c2,
      DiskWrite = DiskWrite c + DiskWrite c2,
      Memory = Memory c + Memory c2\<rparr>"

text \<open>
  The helper closure \<^verbatim>\<open>min\<close> of \<^verbatim>\<open>Cost.Sub\<close>: the wrapped difference and whether
  it did not underflow.
\<close>

definition min_u64 :: "uint64 \<Rightarrow> uint64 \<Rightarrow> uint64 \<times> bool" where
  "min_u64 a b = (a - b, b \<le> a)"

text \<open>
  \<^verbatim>\<open>Cost.Sub\<close>, as written: each of the five assignments calls the helper on
  \<^verbatim>\<open>c.Compute\<close> and \<^verbatim>\<open>c2.Compute\<close>.
\<close>

definition Cost_Sub :: "Cost \<Rightarrow> Cost \<Rightarrow> Cost \<times> bool" where
  "Cost_Sub c c2 =
     (let (v1, ok1) = min_u64 (Compute c) (Compute c2);
          (v2, ok2) = min_u64 (Compute c) (Compute c2);
          (v3, ok3) = min_u64 (Compute c) (Compute c2);
          (v4, ok4) = min_u64 (Compute c) (Compute c2);
          (v5, ok5) = min_u64 (Compute c) (Compute c2)
      in (\<lparr>Compute = v1, DiskAccesses = v2, DiskRead = v3, DiskWrite = v4, Memory = v5\<rparr>,
          ok1 \<and> ok2 \<and> ok3 \<and> ok4 \<and> ok5))"

text \<open>\<^verbatim>\<open>InitCost\<close>: the cost of instantiating the MDM.\<close>

definition InitCost :: "uint64 \<Rightarrow> Cost" where
  "InitCost programLen =
     \<lparr>Compute = 1, DiskAccesses = 1, DiskRead = 0, DiskWrite = 0,
      Memory = push_bit 22 1 + programLen\<rparr>"

section \<open>MDM program cache (package mdm, \<^verbatim>\<open>sectors\<close>)\<close>

text \<open>
  The program cache: the removed roots in order, the gained sectors as a Go map from
  root to data, and the contract's roots in order.
\<close>

record sectors =
  sectorsRemoved :: "Hash list"
  sectorsGained :: "Hash \<rightharpoonup> bytes"
  merkleRoots :: "Hash list"

definition newSectors :: "Hash list \<Rightarrow> sectors" where
  "newSectors roots = \<lparr>sectorsRemoved = [], sectorsGained = Map.empty, merkleRoots = roots\<rparr>"

text \<open>
  \<^verbatim>\<open>crypto.MerkleRoot\<close> and \<^verbatim>\<open>cachedMerkleRoot\<close> are not part of the sources at hand;
  both are pure functions and are taken as parameters.
\<close>

definition appendSector ::
  "(bytes \<Rightarrow> Hash) \<Rightarrow> (Hash list \<Rightarrow> Hash) \<Rightarrow> sectors \<Rightarrow> bytes \<Rightarrow> Hash \<times> sectors" where
  "appendSector MerkleRoot cachedMerkleRoot s sectorData =
     (let newRoot = MerkleRoot sectorData;
          s1 = s\<lparr>sectorsGained := (sectorsGained s)(newRoot \<mapsto> sectorData)\<rparr>;
          s2 = s1\<lparr>merkleRoots := merkleRoots s1 @ [newRoot]\<rparr>
      in (cachedMerkleRoot (merkleRoots s2), s2))"

text \<open>A slice expression whose bound is out of range panics at run time.\<close>

datatype panic = SliceBoundsOutOfRange

text \<open>
  The loop of \<^verbatim>\<open>dropSectors\<close> over the dropped roots: a root found in the gained
  sectors is deleted from them, any other root is appended to the removed ones.
\<close>

fun dropLoop :: "Hash list \<Rightarrow> sectors \<Rightarrow> sectors" where
  "dropLoop [] s = s"
| "dropLoop (dropped # rest) s =
     (case sectorsGained s dropped of
        Some _ \<Rightarrow> dropLoop rest (s\<lparr>sectorsGained := (sectorsGained s)(dropped := None)\<rparr>)
      | None \<Rightarrow> dropLoop rest (s\<lparr>sectorsRemoved := sectorsRemoved s @ [dropped]\<rparr>))"

text \<open>
  \<^verbatim>\<open>dropSectors\<close>. \<^verbatim>\<open>newNumSectors\<close> is a \<^verbatim>\<open>uint64\<close> difference and wraps around. The
  first slice expression \<^verbatim>\<open>s.merkleRoots[newNumSectors:]\<close> panics when the index is
  larger than the length; after it the second one, \<^verbatim>\<open>s.merkleRoots[:newNumSectors]\<close>,
  is in range.
\<close>

definition dropSectors ::
  "(Hash list \<Rightarrow> Hash) \<Rightarrow> sectors \<Rightarrow> uint64 \<Rightarrow> panic + Hash \<times> sectors" where
  "dropSectors cachedMerkleRoot s numSectorsDropped =
     (let newNumSectors = (word_of_nat (length (merkleRoots s)) :: uint64) - numSectorsDropped
      in if length (merkleRoots s) < unat newNumSectors then Inl SliceBoundsOutOfRange
         else
           let droppedRoots = drop (unat newNumSectors) (merkleRoots s);
               s1 = s\<lparr>merkleRoots := take (unat newNumSectors) (merkleRoots s)\<rparr>;
               s2 = dropLoop droppedRoots s1
           in Inr (cachedMerkleRoot (merkleRoots s2), s2))"

text \<open>\<^verbatim>\<open>hasSector\<close>: a linear search of the roots.\<close>

fun hasSector_loop :: "Hash list \<Rightarrow> Hash \<Rightarrow> bool" where
  "hasSector_loop [] sectorRoot = False"
| "hasSector_loop (r # rest) sectorRoot =
     (if r = sectorRoot then True else hasSector_loop rest sectorRoot)"

definition hasSector :: "sectors \<Rightarrow> Hash \<Rightarrow> bool" where
  "hasSector s sectorRoot = hasSector_loop (merkleRoots s) sectorRoot"

section \<open>MDM program execution (package mdm, \<^verbatim>\<open>ExecuteProgram\<close>)\<close>

text \<open>
  Modelled from the spec: the \<^verbatim>\<open>Output\<close> type and the \<^verbatim>\<open>instruction\<close> interface are
  declared outside the sources at hand. An output is the record of new Merkle root,
  proof, output data and error that the spec lists; \<^verbatim>\<open>ExecuteProgram\<close> reads its
  \<^verbatim>\<open>NewMerkleRoot\<close> and \<^verbatim>\<open>Error\<close>. An instruction offers \<^verbatim>\<open>Execute\<close>, which
  may change the program state \<open>'ps\<close>, and \<^verbatim>\<open>ReadOnly\<close>.
\<close>

record Output =
  NewMerkleRoot :: Hash
  Proof :: "Hash list"
  OutputData :: bytes
  Error :: "string option"

record 'ps instruction =
  Execute :: "'ps \<Rightarrow> Hash \<Rightarrow> Output \<times> 'ps"
  ReadOnly :: bool

text \<open>
  The loop of the goroutine that \<^verbatim>\<open>ExecuteProgram\<close> starts. \<open>ctxDone k\<close> tells whether
  the channel \<^verbatim>\<open>ctx.Done()\<close> is closed when the loop reaches its \<open>k\<close>-th check. The
  check is a \<^verbatim>\<open>select\<close> with the cases \<^verbatim>\<open>case <-ctx.Done(): break\<close> and an empty
  \<^verbatim>\<open>default\<close>; in Go a \<^verbatim>\<open>break\<close> inside a \<^verbatim>\<open>select\<close> leaves the \<^verbatim>\<open>select\<close>
  statement, not the enclosing \<^verbatim>\<open>for\<close>, so both cases continue with the statement
  after the \<^verbatim>\<open>select\<close>. The result is the list of outputs sent on the output channel
  (buffered to the number of instructions, so no send blocks), in order, and the final
  program state.
\<close>

fun executeLoop ::
  "(nat \<Rightarrow> bool) \<Rightarrow> nat \<Rightarrow> 'ps instruction list \<Rightarrow> Hash \<Rightarrow> 'ps \<Rightarrow> Output list \<times> 'ps" where
  "executeLoop ctxDone k [] fcRoot ps = ([], ps)"
| "executeLoop ctxDone k (i # rest) fcRoot ps =
     (let interrupted = (if ctxDone k then () else ());
          (output, ps1) = Execute i ps fcRoot
      in if Error output \<noteq> None then ([output], ps1)
         else let (outputs, ps2) = executeLoop ctxDone (k + 1) rest (NewMerkleRoot output) ps1
              in (output # outputs, ps2))"

text \<open>\<^verbatim>\<open>Program.readOnly\<close>.\<close>

fun readOnly :: "'ps instruction list \<Rightarrow> bool" where
  "readOnly [] = True"
| "readOnly (i # rest) = (if \<not> ReadOnly i then False else readOnly rest)"

text \<open>
  An instruction for exercising the loop: it counts its executions in the program
  state, keeps the contract root and outputs the given data without error.
\<close>

definition echo :: "bytes \<Rightarrow> nat instruction" where
  "echo d = \<lparr>Execute = (\<lambda>ps fcRoot.
               (\<lparr>NewMerkleRoot = fcRoot, Proof = [], OutputData = d, Error = None\<rparr>, Suc ps)),
            ReadOnly = True\<rparr>"

section \<open>Renter upload heap (package renter, \<^verbatim>\<open>uploadheap.go\<close>)\<close>

text \<open>
  The types \<^verbatim>\<open>uploadChunkID\<close> and \<^verbatim>\<open>unfinishedUploadChunk\<close> are declared outside the
  sources at hand; their fields are taken from \<^verbatim>\<open>buildUnfinishedChunk\<close>, which sets
  them. A chunk is identified by the UID of its file and its index in the file. Of an
  \<^verbatim>\<open>unfinishedUploadChunk\<close> the heap reads the id (here \<open>uuc_id\<close>), the priority flag,
  the stuck flag and the health; the other fields play no part in the heap and are
  left out. The health is a \<^verbatim>\<open>float64\<close>; it is modelled as a real number, so the
  comparison of \<^verbatim>\<open>Less\<close> is the usual order (a NaN health is outside the model).
  The heap is a slice of pointers to chunks; a chunk is taken as the value it has
  while it is in the heap.
\<close>

record uploadChunkID =
  fileUID :: string
  index :: uint64

record unfinishedUploadChunk =
  uuc_id :: uploadChunkID
  priority :: bool
  stuck :: bool
  health :: real

type_synonym uploadChunkHeap = "unfinishedUploadChunk list"

text \<open>The \<^verbatim>\<open>heap.Interface\<close> methods of \<^verbatim>\<open>uploadChunkHeap\<close>.\<close>

definition Len :: "uploadChunkHeap \<Rightarrow> nat" where
  "Len uch = length uch"

definition Less :: "uploadChunkHeap \<Rightarrow> nat \<Rightarrow> nat \<Rightarrow> bool" where
  "Less uch i j =
     (if priority (uch ! i) \<and> \<not> priority (uch ! j) then True
      else if \<not> priority (uch ! i) \<and> priority (uch ! j) then False
      else if stuck (uch ! i) = stuck (uch ! j) then health (uch ! i) > health (uch ! j)
      else if stuck (uch ! i) then True
      else False)"

definition Swap :: "uploadChunkHeap \<Rightarrow> nat \<Rightarrow> nat \<Rightarrow> uploadChunkHeap" where
  "Swap uch i j = uch[i := uch ! j, j := uch ! i]"

definition Push :: "uploadChunkHeap \<Rightarrow> unfinishedUploadChunk \<Rightarrow> uploadChunkHeap" where
  "Push uch x = uch @ [x]"

definition Pop :: "uploadChunkHeap \<Rightarrow> (unfinishedUploadChunk \<times> uploadChunkHeap) option" where
  "Pop old = (if old = [] then None else Some (old ! (length old - 1), take (length old - 1) old))"

text \<open>
  \<^verbatim>\<open>container/heap\<close> of the Go standard library: \<^verbatim>\<open>up\<close>, \<^verbatim>\<open>down\<close>, \<^verbatim>\<open>Push\<close> and
  \<^verbatim>\<open>Pop\<close>, over the methods above. In \<^verbatim>\<open>up\<close> the parent of \<open>j\<close> is \<open>(j - 1) / 2\<close>,
  which is 0 for \<open>j = 0\<close> in Go (division truncates) as it is on natural numbers. The
  result of \<^verbatim>\<open>down\<close> (whether the element moved) is not used by \<^verbatim>\<open>Pop\<close>. The
  methods are called with indices below the length only. On an empty heap
  \<^verbatim>\<open>heap.Pop\<close> panics with an index out of range: the result \<open>None\<close>.
\<close>

function heap_up :: "uploadChunkHeap \<Rightarrow> nat \<Rightarrow> uploadChunkHeap" where
  "heap_up h j =
     (let i = (j - 1) div 2
      in if i = j \<or> \<not> Less h j i then h else heap_up (Swap h i j) i)"
  by pat_completeness auto
termination
  by (relation "measure (\<lambda>(h, j). j)") auto

function heap_down :: "uploadChunkHeap \<Rightarrow> nat \<Rightarrow> nat \<Rightarrow> uploadChunkHeap" where
  "heap_down h i n =
     (let j1 = 2 * i + 1
      in if j1 \<ge> n then h
         else
           let j = (if j1 + 1 < n \<and> Less h (j1 + 1) j1 then j1 + 1 else j1)
           in if \<not> Less h j i then h else heap_down (Swap h i j) j n)"
  by pat_completeness auto
termination
  by (relation "measure (\<lambda>(h, i, n). n - i)") (auto split: if_splits)

declare heap_up.simps [simp del] heap_down.simps [simp del]

definition heap_Push :: "uploadChunkHeap \<Rightarrow> unfinishedUploadChunk \<Rightarrow> uploadChunkHeap" where
  "heap_Push h x = (let h1 = Push h x in heap_up h1 (Len h1 - 1))"

definition heap_Pop :: "uploadChunkHeap \<Rightarrow> (unfinishedUploadChunk \<times> uploadChunkHeap) option" where
  "heap_Pop h =
     (if Len h = 0 then None
      else let n = Len h - 1; h1 = Swap h 0 n; h2 = heap_down h1 0 n in Pop h2)"

text \<open>
  The upload heap: the chunk heap and the three membership maps, each a Go map to the
  empty struct, that is a set of ids. \<^verbatim>\<open>build.Critical\<close> reports a broken sanity check;
  the reports are collected in \<open>criticals\<close>. Every method holds the heap's mutex from
  start to end, so each is one atomic step on this state.
\<close>

record uploadHeap =
  heap :: uploadChunkHeap
  repairingChunks :: "uploadChunkID set"
  stuckHeapChunks :: "uploadChunkID set"
  unstuckHeapChunks :: "uploadChunkID set"
  criticals :: "string list"

definition emptyUploadHeap :: uploadHeap where
  "emptyUploadHeap = \<lparr>heap = [], repairingChunks = {}, stuckHeapChunks = {},
     unstuckHeapChunks = {}, criticals = []\<rparr>"

definition managedExists :: "uploadHeap \<Rightarrow> uploadChunkID \<Rightarrow> bool" where
  "managedExists uh cid =
     (let existsUnstuckHeap = cid \<in> unstuckHeapChunks uh;
          existsRepairing = cid \<in> repairingChunks uh;
          existsStuckHeap = cid \<in> stuckHeapChunks uh
      in existsUnstuckHeap \<or> existsRepairing \<or> existsStuckHeap)"

definition managedMarkRepairDone :: "uploadHeap \<Rightarrow> uploadChunkID \<Rightarrow> uploadHeap" where
  "managedMarkRepairDone uh cid =
     (let uh1 = (if cid \<in> repairingChunks uh then uh
                 else uh\<lparr>criticals := criticals uh @
                   [''Chunk is not in the repair map, this means it was removed prematurely or was never added'']\<rparr>)
      in uh1\<lparr>repairingChunks := repairingChunks uh1 - {cid}\<rparr>)"

text \<open>
  \<^verbatim>\<open>managedPush\<close>. The cap \<^verbatim>\<open>maxStuckChunksInHeap\<close> is a constant declared outside the
  sources at hand and is taken as a parameter.
\<close>

definition managedPush :: "nat \<Rightarrow> uploadHeap \<Rightarrow> unfinishedUploadChunk \<Rightarrow> bool \<times> uploadHeap" where
  "managedPush maxStuckChunksInHeap uh uuc =
     (let chunkStuck = stuck uuc;
          existsUnstuckHeap = uuc_id uuc \<in> unstuckHeapChunks uh;
          existsRepairing = uuc_id uuc \<in> repairingChunks uh;
          existsStuckHeap = uuc_id uuc \<in> stuckHeapChunks uh;
          canAddStuckChunk = (chunkStuck \<and> \<not> existsStuckHeap \<and> \<not> existsRepairing
                              \<and> card (stuckHeapChunks uh) < maxStuckChunksInHeap);
          canAddUnstuckChunk = (\<not> chunkStuck \<and> \<not> existsUnstuckHeap \<and> \<not> existsRepairing)
      in if canAddStuckChunk then
           (True, uh\<lparr>stuckHeapChunks := insert (uuc_id uuc) (stuckHeapChunks uh),
                      heap := heap_Push (heap uh) uuc\<rparr>)
         else if canAddUnstuckChunk then
           (True, uh\<lparr>unstuckHeapChunks := insert (uuc_id uuc) (unstuckHeapChunks uh),
                      heap := heap_Push (heap uh) uuc\<rparr>)
         else (False, uh))"

definition managedPop :: "uploadHeap \<Rightarrow> unfinishedUploadChunk option \<times> uploadHeap" where
  "managedPop uh =
     (if length (heap uh) > 0 then
        (case heap_Pop (heap uh) of
           None \<Rightarrow> (None, uh)
         | Some (uc, h') \<Rightarrow>
             let uh1 = uh\<lparr>heap := h'\<rparr>;
                 uh2 = uh1\<lparr>unstuckHeapChunks := unstuckHeapChunks uh1 - {uuc_id uc}\<rparr>;
                 uh3 = uh2\<lparr>stuckHeapChunks := stuckHeapChunks uh2 - {uuc_id uc}\<rparr>;
                 uh4 = (if uuc_id uc \<in> repairingChunks uh3 then
                          uh3\<lparr>criticals := criticals uh3 @
                            [''There should not be a chunk in the heap that can be popped that is currently being repaired'']\<rparr>
                        else uh3)
             in (Some uc, uh4\<lparr>repairingChunks := insert (uuc_id uc) (repairingChunks uh4)\<rparr>))
      else (None, uh))"

text \<open>The chunks of the heap-ordering scenarios.\<close>

definition chunkA :: unfinishedUploadChunk where
  "chunkA = \<lparr>uuc_id = \<lparr>fileUID = ''A'', index = 0\<rparr>, priority = False, stuck = False, health = 0.8\<rparr>"
definition chunkB :: unfinishedUploadChunk where
  "chunkB = \<lparr>uuc_id = \<lparr>fileUID = ''B'', index = 0\<rparr>, priority = False, stuck = False, health = 0.6\<rparr>"
definition chunkC :: unfinishedUploadChunk where
  "chunkC = \<lparr>uuc_id = \<lparr>fileUID = ''C'', index = 0\<rparr>, priority = True, stuck = False, health = 0.1\<rparr>"

definition chunkS1 :: unfinishedUploadChunk where
  "chunkS1 = \<lparr>uuc_id = \<lparr>fileUID = ''S1'', index = 0\<rparr>, priority = False, stuck = True, health = 0.3\<rparr>"
definition chunkU1 :: unfinishedUploadChunk where
  "chunkU1 = \<lparr>uuc_id = \<lparr>fileUID = ''U1'', index = 0\<rparr>, priority = False, stuck = False, health = 0.9\<rparr>"

text \<open>
  Two chunk objects built for the same chunk of the same file, one while the chunk was
  not marked stuck and one after it was.
\<close>

definition chunkX_unstuck :: unfinishedUploadChunk where
  "chunkX_unstuck = \<lparr>uuc_id = \<lparr>fileUID = ''X'', index = 7\<rparr>, priority = False, stuck = False, health = 0.5\<rparr>"
definition chunkX_stuck :: unfinishedUploadChunk where
  "chunkX_stuck = \<lparr>uuc_id = \<lparr>fileUID = ''X'', index = 7\<rparr>, priority = False, stuck = True, health = 0.5\<rparr>"

text \<open>The states of the upload heap reachable from the empty heap.\<close>

inductive reachable_uh :: "nat \<Rightarrow> uploadHeap \<Rightarrow> bool" for m :: nat where
  reachable_uh_empty: "reachable_uh m emptyUploadHeap"
| reachable_uh_push: "reachable_uh m uh \<Longrightarrow> reachable_uh m (snd (managedPush m uh uuc))"
| reachable_uh_pop: "reachable_uh m uh \<Longrightarrow> reachable_uh m (snd (managedPop uh))"
| reachable_uh_done: "reachable_uh m uh \<Longrightarrow> reachable_uh m (managedMarkRepairDone uh cid)"

section \<open>Host contract manager (package contractmanager, sectors)\<close>

text \<open>
  A sector location: slot index in the storage folder, index of the storage folder,
  number of virtual sectors, and the ids of the sub sectors tracked for the sector.
  \<^verbatim>\<open>children\<close> is a Go map to the empty struct, that is a set of ids; it is kept as
  the list of its keys without repetition (\<^const>\<open>List.insert\<close>), in the order in which a
  \<^verbatim>\<open>range\<close> loop visits them, which Go leaves open. The nil map is the empty list.
\<close>

record sectorLocation =
  index_sl :: uint32
  storageFolder :: uint16
  count :: uint64
  children :: "sectorID list"

record subSectorLocation =
  offset :: uint32
  length_ssl :: uint32
  parent :: sectorID

text \<open>
  \<^verbatim>\<open>modules.File\<close> is an interface; of it only \<^verbatim>\<open>ReadAt\<close> is used here. A file is
  modelled by that method: given the position (an \<^verbatim>\<open>int64\<close>) and the number of
  bytes asked for, the bytes read, or \<open>None\<close> for an error.
\<close>

type_synonym File = "int \<Rightarrow> nat \<Rightarrow> bytes option"

record storageFolder =
  atomicUnavailable :: uint64
  atomicFailedReads :: uint64
  atomicSuccessfulReads :: uint64
  sectorFile :: File

text \<open>
  The contract manager: the two location maps, the storage folders, whether its thread
  group has been stopped (then \<^verbatim>\<open>tg.Add\<close> fails), and the messages logged with
  \<^verbatim>\<open>log.Critical\<close>. The per-sector lock that \<^verbatim>\<open>SetSubSector\<close> and \<^verbatim>\<open>ReadSector\<close>
  take and release leaves no trace in the state once released and is left out: each
  function is one atomic step.
\<close>

record ContractManager =
  sectorLocations :: "sectorID \<rightharpoonup> sectorLocation"
  subSectorLocations :: "sectorID \<rightharpoonup> subSectorLocation list"
  storageFolders :: "uint16 \<rightharpoonup> storageFolder"
  stopped :: bool
  critical_log :: "string list"

datatype error =
    ErrSectorNotFound
  | ErrStopped
  | ErrSubSectorWithoutParent
  | ErrReadOutOfBounds
  | ErrReadAt
  | ErrUnableToFetchSector error
  | PanicMakeslice

text \<open>
  Modelled from the spec: \<^verbatim>\<open>modules.SectorSize\<close> is declared outside the sources at
  hand; a sector is 4 MiB.
\<close>

definition SectorSize :: uint64 where
  "SectorSize = push_bit 22 1"

text \<open>
  \<^verbatim>\<open>make([]byte, length)\<close> panics at run time ("makeslice: len out of range") when the
  length is beyond what the runtime can allocate: \<open>2 ^ 48\<close> bytes on the 64-bit
  platforms, which also covers a \<^verbatim>\<open>uint64\<close> that is negative as an \<^verbatim>\<open>int\<close>.
\<close>

definition maxAlloc :: nat where
  "maxAlloc = 2 ^ 48"

text \<open>
  \<^verbatim>\<open>readPartialSector\<close>. The bounds check adds two \<^verbatim>\<open>uint64\<close> values and wraps, so
  a length beyond the sector size can pass it; the buffer is then made with that
  length. The file position is converted to \<^verbatim>\<open>int64\<close>. The panic is a value of the
  error type here; it is not an error return, and the callers below pass it on as it
  is.
\<close>

definition readPartialSector :: "File \<Rightarrow> uint32 \<Rightarrow> uint64 \<Rightarrow> uint64 \<Rightarrow> error + bytes" where
  "readPartialSector f sectorIndex off len =
     (if off + len > SectorSize then Inl ErrReadOutOfBounds
      else if maxAlloc < unat len then Inl PanicMakeslice
      else case f (sint (ucast sectorIndex * SectorSize + off)) (unat len) of
             None \<Rightarrow> Inl ErrReadAt
           | Some b \<Rightarrow> Inr b)"

text \<open>
  \<^verbatim>\<open>managedReadPartialSector\<close>; the root it is given is not used. The read counters
  of the folder are atomic counters and wrap. A panic of \<^verbatim>\<open>readPartialSector\<close> leaves
  the function before either counter is touched.
\<close>

definition managedReadPartialSector ::
  "ContractManager \<Rightarrow> Hash \<Rightarrow> sectorLocation \<Rightarrow> uint64 \<Rightarrow> uint64 \<Rightarrow> (error + bytes) \<times> ContractManager" where
  "managedReadPartialSector cm sectorRoot sl off len =
     (if stopped cm then (Inl ErrStopped, cm)
      else case storageFolders cm (storageFolder sl) of
        None \<Rightarrow>
          (Inl ErrSectorNotFound,
           cm\<lparr>critical_log := critical_log cm @
             [''Unable to load storage folder despite having sector metadata'']\<rparr>)
      | Some sf \<Rightarrow>
          if atomicUnavailable sf = 1 then (Inl ErrSectorNotFound, cm)
          else case readPartialSector (sectorFile sf) (index_sl sl) off len of
            Inl err \<Rightarrow>
              if err = PanicMakeslice then (Inl PanicMakeslice, cm)
              else
                (Inl (ErrUnableToFetchSector err),
                 cm\<lparr>storageFolders := (storageFolders cm)(storageFolder sl \<mapsto>
                      sf\<lparr>atomicFailedReads := atomicFailedReads sf + 1\<rparr>)\<rparr>)
          | Inr sectorData \<Rightarrow>
              (Inr sectorData,
               cm\<lparr>storageFolders := (storageFolders cm)(storageFolder sl \<mapsto>
                    sf\<lparr>atomicSuccessfulReads := atomicSuccessfulReads sf + 1\<rparr>)\<rparr>))"

text \<open>
  \<^verbatim>\<open>deleteSector\<close>: the inner loop collects the sub sector locations of a child that
  do not belong to the deleted parent; the outer loop visits the children of the
  deleted sector.
\<close>

fun newSSLs_loop :: "sectorID \<Rightarrow> subSectorLocation list \<Rightarrow> subSectorLocation list" where
  "newSSLs_loop sid [] = []"
| "newSSLs_loop sid (ssl # rest) =
     (if parent ssl = sid then newSSLs_loop sid rest else ssl # newSSLs_loop sid rest)"

definition deleteSector_child :: "sectorID \<Rightarrow> sectorID \<Rightarrow> ContractManager \<Rightarrow> ContractManager" where
  "deleteSector_child sid childID cm =
     (case subSectorLocations cm childID of
        None \<Rightarrow> cm
      | Some ssls \<Rightarrow>
          let newSSLs = newSSLs_loop sid ssls
          in if length newSSLs = 0
             then cm\<lparr>subSectorLocations := (subSectorLocations cm)(childID := None)\<rparr>
             else cm\<lparr>subSectorLocations := (subSectorLocations cm)(childID \<mapsto> newSSLs)\<rparr>)"

definition deleteSector :: "ContractManager \<Rightarrow> sectorID \<Rightarrow> ContractManager" where
  "deleteSector cm sid =
     (case sectorLocations cm sid of
        None \<Rightarrow> cm
      | Some sl \<Rightarrow>
          let cm1 = fold (deleteSector_child sid) (children sl) cm
          in cm1\<lparr>sectorLocations := (sectorLocations cm1)(sid := None)\<rparr>)"

text \<open>
  \<^verbatim>\<open>SetSubSector\<close>. \<^verbatim>\<open>managedSectorID\<close> (a salted hash of the root, cut to 12 bytes)
  and \<^verbatim>\<open>crypto.MerkleRoot\<close> are pure functions defined outside the sources at hand
  and are taken as parameters.
\<close>

definition SetSubSector ::
  "(Hash \<Rightarrow> sectorID) \<Rightarrow> (bytes \<Rightarrow> Hash) \<Rightarrow> ContractManager \<Rightarrow> Hash \<Rightarrow> uint32 \<Rightarrow> uint32
     \<Rightarrow> (error + Hash) \<times> ContractManager" where
  "SetSubSector managedSectorID MerkleRoot cm sectorRoot off len =
     (let sid = managedSectorID sectorRoot
      in case sectorLocations cm sid of
        None \<Rightarrow> (Inl ErrSectorNotFound, cm)
      | Some sl \<Rightarrow>
          (case managedReadPartialSector cm sectorRoot sl (ucast off) (ucast len) of
             (Inl err, cm1) \<Rightarrow> (Inl err, cm1)
           | (Inr data, cm1) \<Rightarrow>
               let subRoot = MerkleRoot data;
                   subID = managedSectorID subRoot;
                   ssls = (case subSectorLocations cm1 subID of None \<Rightarrow> [] | Some l \<Rightarrow> l);
                   cm2 = cm1\<lparr>subSectorLocations := (subSectorLocations cm1)(subID \<mapsto>
                           ssls @ [\<lparr>offset = off, length_ssl = len, parent = sid\<rparr>])\<rparr>;
                   sl1 = sl\<lparr>children := List.insert subID (children sl)\<rparr>;
                   cm3 = cm2\<lparr>sectorLocations := (sectorLocations cm2)(sid \<mapsto> sl1)\<rparr>
               in (Inr subRoot, cm3)))"

text \<open>
  Reading a Go map with the comma-ok form gives the zero value and \<^verbatim>\<open>false\<close> for a
  key that is absent.
\<close>

definition zero_sectorLocation :: sectorLocation where
  "zero_sectorLocation = \<lparr>index_sl = 0, storageFolder = 0, count = 0, children = []\<rparr>"

definition zero_subSectorLocation :: subSectorLocation where
  "zero_subSectorLocation = \<lparr>offset = 0, length_ssl = 0, parent = 0\<rparr>"

definition sectorLocations_get :: "ContractManager \<Rightarrow> sectorID \<Rightarrow> sectorLocation \<times> bool" where
  "sectorLocations_get cm sid =
     (case sectorLocations cm sid of None \<Rightarrow> (zero_sectorLocation, False) | Some sl \<Rightarrow> (sl, True))"

definition subSectorLocations_get :: "ContractManager \<Rightarrow> sectorID \<Rightarrow> subSectorLocation list \<times> bool" where
  "subSectorLocations_get cm sid =
     (case subSectorLocations cm sid of None \<Rightarrow> ([], False) | Some ssls \<Rightarrow> (ssls, True))"

text \<open>\<^verbatim>\<open>ReadSector\<close>.\<close>

definition ReadSector ::
  "(Hash \<Rightarrow> sectorID) \<Rightarrow> ContractManager \<Rightarrow> Hash \<Rightarrow> (error + bytes) \<times> ContractManager" where
  "ReadSector managedSectorID cm sectorRoot =
     (let sid = managedSectorID sectorRoot;
          (sl, exists1) = sectorLocations_get cm sid;
          (ssls, exists2) = subSectorLocations_get cm sid;
          (sslParent, exists3, ssl) =
             (if length ssls > 0
              then (let (p, e) = sectorLocations_get cm (parent (ssls ! 0)) in (p, e, ssls ! 0))
              else (zero_sectorLocation, False, zero_subSectorLocation))
      in if \<not> exists1 \<and> \<not> exists2 then (Inl ErrSectorNotFound, cm)
         else
           let cm1 = (if exists1 \<and> exists2
                      then cm\<lparr>critical_log := critical_log cm @
                             [''found sector id in sectorLocations and smallSectorLocations'']\<rparr>
                      else cm)
           in if exists2 \<and> \<not> exists3
              then (Inl ErrSubSectorWithoutParent,
                    cm1\<lparr>critical_log := critical_log cm1 @ [''found subsector but not parent'']\<rparr>)
              else
                let (off, len, sl1) =
                      (if exists2 then (0 + ucast (offset ssl), ucast (length_ssl ssl), sslParent)
                       else (0, SectorSize, sl))
                in managedReadPartialSector cm1 sectorRoot sl1 off len)"

text \<open>
  The states reachable through \<^verbatim>\<open>SetSubSector\<close> and \<^verbatim>\<open>deleteSector\<close>. The sub sector
  map lives in memory only; a run starts with no sub sector registered, whatever
  sectors the host stores.
\<close>

definition initial_cm :: "ContractManager \<Rightarrow> bool" where
  "initial_cm cm = (subSectorLocations cm = Map.empty)"

inductive reachable_cm :: "(Hash \<Rightarrow> sectorID) \<Rightarrow> (bytes \<Rightarrow> Hash) \<Rightarrow> ContractManager \<Rightarrow> bool"
  for managedSectorID :: "Hash \<Rightarrow> sectorID" and MerkleRoot :: "bytes \<Rightarrow> Hash" where
  reachable_initial: "initial_cm cm \<Longrightarrow> reachable_cm managedSectorID MerkleRoot cm"
| reachable_SetSubSector:
    "reachable_cm managedSectorID MerkleRoot cm \<Longrightarrow>
     reachable_cm managedSectorID MerkleRoot
       (snd (SetSubSector managedSectorID MerkleRoot cm sectorRoot off len))"
| reachable_deleteSector:
    "reachable_cm managedSectorID MerkleRoot cm \<Longrightarrow>
     reachable_cm managedSectorID MerkleRoot (deleteSector cm sid)"

text \<open>
  Two notions for the proofs: an entry of the sub sector map with the locations of a
  given parent removed, and the invariant that every sub sector location is listed
  among the children of its parent (and no entry is an empty list).
\<close>

definition purged :: "sectorID \<Rightarrow> subSectorLocation list option \<Rightarrow> subSectorLocation list option" where
  "purged sid entry =
     (case entry of
        None \<Rightarrow> None
      | Some ssls \<Rightarrow>
          if filter (\<lambda>ssl. parent ssl \<noteq> sid) ssls = [] then None
          else Some (filter (\<lambda>ssl. parent ssl \<noteq> sid) ssls))"

definition children_complete :: "ContractManager \<Rightarrow> bool" where
  "children_complete cm =
     (\<forall>c ssls. subSectorLocations cm c = Some ssls \<longrightarrow>
        ssls \<noteq> [] \<and>
        (\<forall>ssl \<in> set ssls. \<exists>sl. sectorLocations cm (parent ssl) = Some sl \<and> c \<in> set (children sl)))"

text \<open>
  Concrete states for exercising the results. The stand-ins for the two hash functions
  are a truncation and a function of the length of the data; the file holds at every
  position the low byte of the position. \<open>cm0\<close> stores two sectors in one folder;
  \<open>cm2\<close> is \<open>cm0\<close> after a sub sector of each has been registered; in
  \<open>cm_unavailable\<close> the folder of the one stored sector is marked unavailable.
\<close>

definition sid0 :: "Hash \<Rightarrow> sectorID" where
  "sid0 r = ucast r"

definition mr0 :: "bytes \<Rightarrow> Hash" where
  "mr0 d = 100 + word_of_nat (length d)"

definition file0 :: File where
  "file0 pos n = (if pos < 0 then None else Some (map (\<lambda>k. word_of_int (pos + int k)) [0..<n]))"

definition folder0 :: storageFolder where
  "folder0 = \<lparr>atomicUnavailable = 0, atomicFailedReads = 0, atomicSuccessfulReads = 0,
     sectorFile = file0\<rparr>"

definition cm0 :: ContractManager where
  "cm0 = \<lparr>sectorLocations =
            [1 \<mapsto> \<lparr>index_sl = 0, storageFolder = 0, count = 1, children = []\<rparr>,
             2 \<mapsto> \<lparr>index_sl = 1, storageFolder = 0, count = 1, children = []\<rparr>],
          subSectorLocations = Map.empty,
          storageFolders = [0 \<mapsto> folder0],
          stopped = False, critical_log = []\<rparr>"

definition cm2 :: ContractManager where
  "cm2 = snd (SetSubSector sid0 mr0 (snd (SetSubSector sid0 mr0 cm0 1 8 3)) 2 16 3)"

definition cm_unavailable :: ContractManager where
  "cm_unavailable = \<lparr>sectorLocations =
            [1 \<mapsto> \<lparr>index_sl = 0, storageFolder = 0, count = 1, children = []\<rparr>],
          subSectorLocations = Map.empty,
          storageFolders = [0 \<mapsto> folder0\<lparr>atomicUnavailable := 1\<rparr>],
          stopped = False, critical_log = []\<rparr>"

section \<open>Results about the cost model\<close>

text \<open>What \<^verbatim>\<open>Cost.Sub\<close> computes: only the \<^verbatim>\<open>Compute\<close> fields are read.\<close>

lemma Cost_Sub_reads_Compute_only:
  "Cost_Sub c c2 =
     (\<lparr>Compute = Compute c - Compute c2, DiskAccesses = Compute c - Compute c2,
       DiskRead = Compute c - Compute c2, DiskWrite = Compute c - Compute c2,
       Memory = Compute c - Compute c2\<rparr>,
      Compute c2 \<le> Compute c)"
  by (simp add: Cost_Sub_def min_u64_def)

text \<open>
  Claim C1 (saturating subtraction per field: \<^verbatim>\<open>Sub\<close> fails exactly when some field
  would underflow, and on success every field is the difference of the corresponding
  fields). The code does not do this. With a budget whose \<^verbatim>\<open>Compute\<close> is 2 and whose
  other fields are 0, subtracting \<^verbatim>\<open>InitCost(0)\<close> (one disk access, 4 MiB of memory)
  underflows \<^verbatim>\<open>DiskAccesses\<close> and \<^verbatim>\<open>Memory\<close>, yet the code reports success and
  returns 1 in every field.
\<close>

theorem Cost_Sub_ignores_other_fields:
  "Cost_Sub \<lparr>Compute = 2, DiskAccesses = 0, DiskRead = 0, DiskWrite = 0, Memory = 0\<rparr>
            (InitCost 0)
   = (\<lparr>Compute = 1, DiskAccesses = 1, DiskRead = 1, DiskWrite = 1, Memory = 1\<rparr>, True)"
  by (simp add: Cost_Sub_def min_u64_def InitCost_def)

section \<open>Results about the program cache\<close>

lemma dropLoop_merkleRoots: "merkleRoots (dropLoop ds s) = merkleRoots s"
  by (induction ds arbitrary: s) (auto split: option.splits)

text \<open>The wrapped difference, when it does not underflow and when it does.\<close>

lemma newNumSectors_in_range:
  assumes "length xs < 2 ^ 64" and "unat (n::uint64) \<le> length xs"
  shows "unat ((word_of_nat (length xs) :: uint64) - n) = length xs - unat n"
proof -
  have a: "unat (word_of_nat (length xs) :: uint64) = length xs"
    using assms(1) by (simp add: unat_of_nat)
  have "n \<le> word_of_nat (length xs)"
    using assms(2) a by (simp add: word_le_nat_alt)
  then show ?thesis using a by (simp add: unat_sub)
qed

lemma newNumSectors_wraps:
  assumes "length xs < 2 ^ 64" and "length xs < unat (n::uint64)"
  shows "length xs < unat ((word_of_nat (length xs) :: uint64) - n)"
proof -
  have a: "unat (word_of_nat (length xs) :: uint64) = length xs"
    using assms(1) by (simp add: unat_of_nat)
  have lt: "word_of_nat (length xs) < n"
    using assms(2) a by (simp add: word_less_nat_alt)
  have "unat ((word_of_nat (length xs) :: uint64) - n) = 2 ^ 64 + length xs - unat n"
    using lt a by (simp add: unat_sub_if' word_less_nat_alt)
  moreover have "unat n < 2 ^ 64"
    using unsigned_less [of n, where ?'a = nat] by simp
  ultimately show ?thesis by simp
qed

text \<open>
  Claim C9: \<^verbatim>\<open>dropSectors(n)\<close> returns normally exactly under \<open>n \<le> len(merkleRoots)\<close>.
  Under that precondition the new roots are the first \<open>len - n\<close> old ones; beyond it
  the unguarded \<^verbatim>\<open>uint64\<close> subtraction wraps and the slice expression panics. (A Go
  slice always has fewer than \<open>2 ^ 64\<close> elements.)
\<close>

theorem dropSectors_total_iff:
  assumes "length (merkleRoots s) < 2 ^ 64"
  shows "(unat n \<le> length (merkleRoots s) \<longrightarrow>
            (\<exists>r s'. dropSectors cmr s n = Inr (r, s') \<and>
               merkleRoots s' = take (length (merkleRoots s) - unat n) (merkleRoots s)))
       \<and> (length (merkleRoots s) < unat n \<longrightarrow> dropSectors cmr s n = Inl SliceBoundsOutOfRange)"
  using assms newNumSectors_in_range [of "merkleRoots s" n] newNumSectors_wraps [of "merkleRoots s" n]
  by (auto simp: dropSectors_def Let_def dropLoop_merkleRoots)

theorem dropSectors_total_iff_witness:
  "length (merkleRoots (newSectors [1, 2, 3])) < 2 ^ 64
   \<and> unat (1::uint64) \<le> length (merkleRoots (newSectors [1, 2, 3]))
   \<and> (\<exists>r s'. dropSectors sum_list (newSectors [1, 2, 3]) 1 = Inr (r, s') \<and> merkleRoots s' = [1, 2])
   \<and> length (merkleRoots (newSectors [1, 2, 3])) < unat (5::uint64)
   \<and> dropSectors sum_list (newSectors [1, 2, 3]) 5 = Inl SliceBoundsOutOfRange"
  using dropSectors_total_iff [of "newSectors [1, 2, 3]" 1 sum_list]
        dropSectors_total_iff [of "newSectors [1, 2, 3]" 5 sum_list]
  by (simp add: newSectors_def)

text \<open>
  What \<^verbatim>\<open>appendSector(d)\<close> followed by \<^verbatim>\<open>dropSectors(1)\<close> computes: the contract
  root of the prior roots, and the prior cache with the entry for the root of \<open>d\<close>
  deleted from the gained sectors.
\<close>

lemma appendSector_dropSectors_1_state:
  assumes "length (merkleRoots s) + 1 < 2 ^ 64"
  shows "dropSectors cmr (snd (appendSector mr cmr s d)) 1
         = Inr (cmr (merkleRoots s), s\<lparr>sectorsGained := (sectorsGained s)(mr d := None)\<rparr>)"
proof -
  let ?xs = "merkleRoots s @ [mr d]"
  have "unat ((word_of_nat (length ?xs) :: uint64) - 1) = length ?xs - unat (1::uint64)"
    using assms by (intro newNumSectors_in_range) auto
  then have n: "unat ((word_of_nat (length ?xs) :: uint64) - 1) = length (merkleRoots s)"
    by simp
  show ?thesis
    using n by (simp add: dropSectors_def appendSector_def Let_def)
qed

lemma gained_entry_deleted_iff:
  "(s\<lparr>sectorsGained := (sectorsGained s)(k := None)\<rparr> = s) = (sectorsGained s k = None)"
proof
  assume "s\<lparr>sectorsGained := (sectorsGained s)(k := None)\<rparr> = s"
  then have "sectorsGained (s\<lparr>sectorsGained := (sectorsGained s)(k := None)\<rparr>) k = sectorsGained s k"
    by (rule arg_cong)
  then show "sectorsGained s k = None" by simp
next
  assume "sectorsGained s k = None"
  then have "(sectorsGained s)(k := None) = sectorsGained s"
    by (simp add: fun_upd_idem)
  then show "s\<lparr>sectorsGained := (sectorsGained s)(k := None)\<rparr> = s" by simp
qed

text \<open>
  Claim C7, as amended: for every cache state and every sector data \<open>d\<close>,
  \<^verbatim>\<open>appendSector(d)\<close> followed by \<^verbatim>\<open>dropSectors(1)\<close> returns the contract root of the
  prior roots, restores the prior roots sequence, leaves the gained sectors without
  the root of \<open>d\<close> and leaves the removed roots unchanged; the pair is a net zero
  side effect (the whole cache is as before) exactly when the root of \<open>d\<close> was not
  among the gained sectors before the append. (A Go slice has fewer than \<open>2 ^ 64\<close>
  elements also after the append.)
\<close>

theorem appendSector_dropSectors_1_round_trip:
  assumes "length (merkleRoots s) + 1 < 2 ^ 64"
  shows "(\<exists>s'. dropSectors cmr (snd (appendSector mr cmr s d)) 1 = Inr (cmr (merkleRoots s), s')
            \<and> merkleRoots s' = merkleRoots s \<and> sectorsGained s' (mr d) = None
            \<and> sectorsRemoved s' = sectorsRemoved s)
       \<and> ((dropSectors cmr (snd (appendSector mr cmr s d)) 1 = Inr (cmr (merkleRoots s), s))
            = (sectorsGained s (mr d) = None))"
proof
  show "\<exists>s'. dropSectors cmr (snd (appendSector mr cmr s d)) 1 = Inr (cmr (merkleRoots s), s')
            \<and> merkleRoots s' = merkleRoots s \<and> sectorsGained s' (mr d) = None
            \<and> sectorsRemoved s' = sectorsRemoved s"
    using appendSector_dropSectors_1_state [OF assms, of cmr mr d] by simp
next
  show "(dropSectors cmr (snd (appendSector mr cmr s d)) 1 = Inr (cmr (merkleRoots s), s))
          = (sectorsGained s (mr d) = None)"
    using appendSector_dropSectors_1_state [OF assms, of cmr mr d]
          gained_entry_deleted_iff [of s "mr d"]
    by simp
qed

theorem appendSector_dropSectors_1_round_trip_witness:
  "length (merkleRoots (newSectors [1, 2])) + 1 < 2 ^ 64
   \<and> (\<exists>s'. dropSectors sum_list (snd (appendSector mr0 sum_list (newSectors [1, 2]) [7, 7, 7])) 1
              = Inr (sum_list (merkleRoots (newSectors [1, 2])), s')
            \<and> merkleRoots s' = [1, 2] \<and> sectorsGained s' (mr0 [7, 7, 7]) = None
            \<and> sectorsRemoved s' = [])
   \<and> sectorsGained (newSectors [1, 2]) (mr0 [7, 7, 7]) = None
   \<and> dropSectors sum_list (snd (appendSector mr0 sum_list (newSectors [1, 2]) [7, 7, 7])) 1
       = Inr (3, newSectors [1, 2])"
proof -
  have l: "length (merkleRoots (newSectors [1, 2])) + 1 < 2 ^ 64"
    by (simp add: newSectors_def)
  have g: "sectorsGained (newSectors [1, 2]) (mr0 [7, 7, 7]) = None"
    by (simp add: newSectors_def)
  from appendSector_dropSectors_1_round_trip [OF l, of sum_list mr0 "[7, 7, 7]"] l g
  show ?thesis by (simp add: newSectors_def)
qed

text \<open>
  Claim C7 as stated (a net zero side effect for every cache state) fails when the
  same data is in the cache already. Start from the empty cache and append \<open>d\<close>; the
  cache then has the root of \<open>d\<close> among its roots and \<open>d\<close> among the gained sectors.
  Appending \<open>d\<close> again and dropping one sector does not give that cache back: the root
  is still among the roots, but the gained sectors no longer hold \<open>d\<close>. The root
  function plays no part in this: the same data has the same root.
\<close>

theorem appendSector_dropSectors_1_net_zero_counterexample:
  "sectorsGained (snd (appendSector mr0 sum_list (newSectors []) [7, 7, 7])) (mr0 [7, 7, 7])
     = Some [7, 7, 7]
   \<and> dropSectors sum_list
        (snd (appendSector mr0 sum_list
               (snd (appendSector mr0 sum_list (newSectors []) [7, 7, 7])) [7, 7, 7])) 1
       \<noteq> Inr (sum_list (merkleRoots (snd (appendSector mr0 sum_list (newSectors []) [7, 7, 7]))),
              snd (appendSector mr0 sum_list (newSectors []) [7, 7, 7]))
   \<and> (\<exists>r s'. dropSectors sum_list
        (snd (appendSector mr0 sum_list
               (snd (appendSector mr0 sum_list (newSectors []) [7, 7, 7])) [7, 7, 7])) 1
         = Inr (r, s')
        \<and> merkleRoots s' = [mr0 [7, 7, 7]] \<and> sectorsGained s' (mr0 [7, 7, 7]) = None)"
proof -
  let ?s1 = "snd (appendSector mr0 sum_list (newSectors []) [7, 7, 7])"
  have l: "length (merkleRoots ?s1) + 1 < 2 ^ 64"
    by (simp add: appendSector_def newSectors_def Let_def)
  have g: "sectorsGained ?s1 (mr0 [7, 7, 7]) = Some [7, 7, 7]"
    by (simp add: appendSector_def newSectors_def Let_def)
  note st = appendSector_dropSectors_1_state [OF l, of sum_list mr0 "[7, 7, 7]"]
  have ne: "?s1\<lparr>sectorsGained := (sectorsGained ?s1)(mr0 [7, 7, 7] := None)\<rparr> \<noteq> ?s1"
    using gained_entry_deleted_iff [of ?s1 "mr0 [7, 7, 7]"] g by simp
  have r: "merkleRoots ?s1 = [mr0 [7, 7, 7]]"
    by (simp add: appendSector_def newSectors_def Let_def)
  from g st ne r show ?thesis by simp
qed

section \<open>Results about program execution\<close>

text \<open>The cancellation signal has no effect on what the loop executes and emits.\<close>

lemma executeLoop_ignores_ctx:
  "executeLoop ctxDone k is fcRoot ps = executeLoop ctxDone' k' is fcRoot ps"
proof (induction "is" arbitrary: k k' fcRoot ps)
  case Nil
  show ?case by simp
next
  case (Cons i rest)
  have "executeLoop ctxDone (k + 1) rest r p = executeLoop ctxDone' (k' + 1) rest r p" for r p
    by (rule Cons.IH)
  then show ?case by (simp add: Let_def split: prod.splits)
qed

text \<open>
  Claim C6 (once the cancellation signal is set, execution stops at the next check
  between instructions: no instruction after a check that observes the cancellation is
  executed, and no further output is emitted). The code does not do this. With the
  signal set before the first check, a program of two instructions still executes both
  (the program state counts two executions) and emits both outputs.
\<close>

theorem cancelled_program_still_executes:
  "executeLoop (\<lambda>k. True) 0 [echo [1], echo [2]] 7 (0::nat)
   = ([\<lparr>NewMerkleRoot = 7, Proof = [], OutputData = [1], Error = None\<rparr>,
       \<lparr>NewMerkleRoot = 7, Proof = [], OutputData = [2], Error = None\<rparr>], 2)"
  by (simp add: echo_def)

section \<open>Results about the upload heap\<close>

lemmas scenario_defs =
  managedPush_def managedPop_def emptyUploadHeap_def heap_Push_def heap_Pop_def Push_def Pop_def
  Len_def Less_def Swap_def heap_up.simps heap_down.simps

text \<open>
  Claim C3: \<^verbatim>\<open>Less\<close> ranks chunk \<open>i\<close> above chunk \<open>j\<close> by the three rules: when exactly
  one of the two has priority, that one ranks higher; otherwise, when both have the same
  stuck status, the one with the higher health ranks higher; otherwise the stuck one
  ranks higher. And pushing A (no priority, not stuck, health 0.8), B (no priority, not
  stuck, 0.6) and C (priority, not stuck, 0.1) onto the empty heap, whatever the cap on
  stuck chunks, gives the pop order C, A, B.
\<close>

theorem Less_ranks_by_spec_rules:
  "(\<forall>uch i j. i < length uch \<longrightarrow> j < length uch \<longrightarrow>
      (priority (uch ! i) \<noteq> priority (uch ! j) \<longrightarrow> Less uch i j = priority (uch ! i))
    \<and> (priority (uch ! i) = priority (uch ! j) \<and> stuck (uch ! i) = stuck (uch ! j) \<longrightarrow>
          Less uch i j = (health (uch ! i) > health (uch ! j)))
    \<and> (priority (uch ! i) = priority (uch ! j) \<and> stuck (uch ! i) \<noteq> stuck (uch ! j) \<longrightarrow>
          Less uch i j = stuck (uch ! i)))
   \<and> (let (ok1, uh1) = managedPush m emptyUploadHeap chunkA;
           (ok2, uh2) = managedPush m uh1 chunkB;
           (ok3, uh3) = managedPush m uh2 chunkC;
           (c1, uh4) = managedPop uh3;
           (c2, uh5) = managedPop uh4;
           (c3, uh6) = managedPop uh5
       in ok1 \<and> ok2 \<and> ok3 \<and> [c1, c2, c3] = [Some chunkC, Some chunkA, Some chunkB])"
proof (rule conjI)
  show "\<forall>uch i j. i < length uch \<longrightarrow> j < length uch \<longrightarrow>
      (priority (uch ! i) \<noteq> priority (uch ! j) \<longrightarrow> Less uch i j = priority (uch ! i))
    \<and> (priority (uch ! i) = priority (uch ! j) \<and> stuck (uch ! i) = stuck (uch ! j) \<longrightarrow>
          Less uch i j = (health (uch ! i) > health (uch ! j)))
    \<and> (priority (uch ! i) = priority (uch ! j) \<and> stuck (uch ! i) \<noteq> stuck (uch ! j) \<longrightarrow>
          Less uch i j = stuck (uch ! i))"
    by (auto simp: Less_def)
next
  show "let (ok1, uh1) = managedPush m emptyUploadHeap chunkA;
           (ok2, uh2) = managedPush m uh1 chunkB;
           (ok3, uh3) = managedPush m uh2 chunkC;
           (c1, uh4) = managedPop uh3;
           (c2, uh5) = managedPop uh4;
           (c3, uh6) = managedPop uh5
       in ok1 \<and> ok2 \<and> ok3 \<and> [c1, c2, c3] = [Some chunkC, Some chunkA, Some chunkB]"
    by (simp add: scenario_defs chunkA_def chunkB_def chunkC_def)
qed

theorem Less_ranks_by_spec_rules_witness:
  "Less [chunkC, chunkA] 0 1 \<and> \<not> Less [chunkC, chunkA] 1 0
   \<and> Less [chunkA, chunkB] 0 1 \<and> \<not> Less [chunkA, chunkB] 1 0
   \<and> Less [chunkS1, chunkU1] 0 1 \<and> \<not> Less [chunkS1, chunkU1] 1 0"
proof -
  note r = Less_ranks_by_spec_rules [of 5, THEN conjunct1, rule_format]
  have "Less [chunkC, chunkA] 0 1 = priority ([chunkC, chunkA] ! 0)"
    by (rule r [THEN conjunct1, rule_format]) (simp_all add: chunkA_def chunkC_def)
  moreover have "Less [chunkC, chunkA] 1 0 = priority ([chunkC, chunkA] ! 1)"
    by (rule r [THEN conjunct1, rule_format]) (simp_all add: chunkA_def chunkC_def)
  moreover have "Less [chunkA, chunkB] 0 1 = (health ([chunkA, chunkB] ! 0) > health ([chunkA, chunkB] ! 1))"
    by (rule r [THEN conjunct2, THEN conjunct1, rule_format]) (simp_all add: chunkA_def chunkB_def)
  moreover have "Less [chunkA, chunkB] 1 0 = (health ([chunkA, chunkB] ! 1) > health ([chunkA, chunkB] ! 0))"
    by (rule r [THEN conjunct2, THEN conjunct1, rule_format]) (simp_all add: chunkA_def chunkB_def)
  moreover have "Less [chunkS1, chunkU1] 0 1 = stuck ([chunkS1, chunkU1] ! 0)"
    by (rule r [THEN conjunct2, THEN conjunct2, rule_format]) (simp_all add: chunkS1_def chunkU1_def)
  moreover have "Less [chunkS1, chunkU1] 1 0 = stuck ([chunkS1, chunkU1] ! 1)"
    by (rule r [THEN conjunct2, THEN conjunct2, rule_format]) (simp_all add: chunkS1_def chunkU1_def)
  ultimately show ?thesis
    by (simp add: chunkA_def chunkB_def chunkC_def chunkS1_def chunkU1_def)
qed

text \<open>
  Claim C4, as amended: after pushing S1 (no priority, stuck, health 0.3) and then U1
  (no priority, not stuck, health 0.9) onto the empty heap, with a cap on stuck chunks
  of at least one, the pop order is S1 first, then U1: a stuck chunk ranks above an
  unstuck one whatever their healths.
\<close>

theorem stuck_S1_pops_before_U1:
  assumes "0 < m"
  shows "let (ok1, uh1) = managedPush m emptyUploadHeap chunkS1;
             (ok2, uh2) = managedPush m uh1 chunkU1;
             (c1, uh3) = managedPop uh2;
             (c2, uh4) = managedPop uh3
         in ok1 \<and> ok2 \<and> [c1, c2] = [Some chunkS1, Some chunkU1]"
  using assms by (simp add: scenario_defs chunkS1_def chunkU1_def)

theorem stuck_S1_pops_before_U1_witness:
  "(0::nat) < 5
   \<and> (let (ok1, uh1) = managedPush 5 emptyUploadHeap chunkS1;
           (ok2, uh2) = managedPush 5 uh1 chunkU1;
           (c1, uh3) = managedPop uh2;
           (c2, uh4) = managedPop uh3
       in ok1 \<and> ok2 \<and> [c1, c2] = [Some chunkS1, Some chunkU1])"
  using stuck_S1_pops_before_U1 [of 5] by simp

text \<open>Claim C4 as stated (pop order U1, then S1) fails, here with a cap of 5.\<close>

theorem U1_then_S1_counterexample:
  "\<not> (let (ok1, uh1) = managedPush 5 emptyUploadHeap chunkS1;
           (ok2, uh2) = managedPush 5 uh1 chunkU1;
           (c1, uh3) = managedPop uh2;
           (c2, uh4) = managedPop uh3
       in [c1, c2] = [Some chunkU1, Some chunkS1])"
  by (simp add: scenario_defs chunkS1_def chunkU1_def)

text \<open>
  Claim C10: when \<^verbatim>\<open>managedPush\<close> returns false, the upload heap is as it was before
  the call: the heap slice and the three membership maps are unchanged (and so is the
  rest of the state).
\<close>

theorem managedPush_false_modifies_nothing:
  assumes "fst (managedPush m uh uuc) = False"
  shows "snd (managedPush m uh uuc) = uh
         \<and> heap (snd (managedPush m uh uuc)) = heap uh
         \<and> unstuckHeapChunks (snd (managedPush m uh uuc)) = unstuckHeapChunks uh
         \<and> stuckHeapChunks (snd (managedPush m uh uuc)) = stuckHeapChunks uh
         \<and> repairingChunks (snd (managedPush m uh uuc)) = repairingChunks uh"
proof -
  have "snd (managedPush m uh uuc) = uh"
    using assms by (auto simp: managedPush_def Let_def split: if_splits)
  then show ?thesis by simp
qed

theorem managedPush_false_modifies_nothing_witness:
  "fst (managedPush 5
          \<lparr>heap = [chunkA], repairingChunks = {}, stuckHeapChunks = {},
           unstuckHeapChunks = {uuc_id chunkA}, criticals = []\<rparr> chunkA) = False
   \<and> snd (managedPush 5
          \<lparr>heap = [chunkA], repairingChunks = {}, stuckHeapChunks = {},
           unstuckHeapChunks = {uuc_id chunkA}, criticals = []\<rparr> chunkA)
       = \<lparr>heap = [chunkA], repairingChunks = {}, stuckHeapChunks = {},
          unstuckHeapChunks = {uuc_id chunkA}, criticals = []\<rparr>"
proof -
  let ?uh = "\<lparr>heap = [chunkA], repairingChunks = {}, stuckHeapChunks = {},
              unstuckHeapChunks = {uuc_id chunkA}, criticals = []\<rparr>"
  have f: "fst (managedPush 5 ?uh chunkA) = False"
    by (simp add: managedPush_def chunkA_def)
  from managedPush_false_modifies_nothing [OF f] f show ?thesis by simp
qed

text \<open>
  Claim C2 (an id is in at most one of the three membership maps, and \<^verbatim>\<open>managedPush\<close>
  rejects an addition that would put it into a second one). The code does not do this:
  the test for a stuck chunk does not look at \<^verbatim>\<open>unstuckHeapChunks\<close>, and the test for
  an unstuck chunk does not look at \<^verbatim>\<open>stuckHeapChunks\<close>. Pushing a chunk built while
  it was not stuck and then a chunk of the same id built after it was marked stuck
  succeeds twice (cap 5) and leaves the id in both maps. The heap then holds two chunks
  of that id: the first pop moves the id to \<^verbatim>\<open>repairingChunks\<close>, and the second pop
  trips the sanity check of \<^verbatim>\<open>managedPop\<close>.
\<close>

theorem same_id_in_both_heap_sets:
  "(let (ok1, uh1) = managedPush 5 emptyUploadHeap chunkX_unstuck;
        (ok2, uh2) = managedPush 5 uh1 chunkX_stuck;
        (c1, uh3) = managedPop uh2;
        (c2, uh4) = managedPop uh3
    in ok1 \<and> ok2
       \<and> uuc_id chunkX_unstuck = uuc_id chunkX_stuck
       \<and> uuc_id chunkX_stuck \<in> unstuckHeapChunks uh2
       \<and> uuc_id chunkX_stuck \<in> stuckHeapChunks uh2
       \<and> criticals uh3 = []
       \<and> criticals uh4 = [''There should not be a chunk in the heap that can be popped that is currently being repaired''])"
  by (simp add: scenario_defs chunkX_unstuck_def chunkX_stuck_def)

text \<open>The state after the two pushes is a reachable state.\<close>

lemma exclusivity_is_not_invariant:
  "\<exists>uh. reachable_uh 5 uh \<and> stuckHeapChunks uh \<inter> unstuckHeapChunks uh \<noteq> {}"
proof -
  let ?uh1 = "snd (managedPush 5 emptyUploadHeap chunkX_unstuck)"
  let ?uh2 = "snd (managedPush 5 ?uh1 chunkX_stuck)"
  have "reachable_uh 5 ?uh1"
    by (rule reachable_uh_push) (rule reachable_uh_empty)
  then have r: "reachable_uh 5 ?uh2"
    by (rule reachable_uh_push)
  have "uuc_id chunkX_stuck \<in> stuckHeapChunks ?uh2 \<inter> unstuckHeapChunks ?uh2"
    by (simp add: scenario_defs chunkX_unstuck_def chunkX_stuck_def)
  with r show ?thesis by blast
qed

text \<open>
  What does hold in every reachable state: the ids being repaired are in neither of
  the two heap maps.
\<close>

lemma managedPop_sets:
  "managedPop uh = (Some uc, uh') \<Longrightarrow>
     unstuckHeapChunks uh' = unstuckHeapChunks uh - {uuc_id uc}
   \<and> stuckHeapChunks uh' = stuckHeapChunks uh - {uuc_id uc}
   \<and> repairingChunks uh' = insert (uuc_id uc) (repairingChunks uh)"
  by (auto simp: managedPop_def Let_def split: if_splits option.splits)

lemma managedPop_None: "managedPop uh = (None, uh') \<Longrightarrow> uh' = uh"
  by (auto simp: managedPop_def Let_def split: if_splits option.splits)

lemma reachable_uh_repairing_disjoint:
  "reachable_uh m uh \<Longrightarrow> repairingChunks uh \<inter> (stuckHeapChunks uh \<union> unstuckHeapChunks uh) = {}"
proof (induction rule: reachable_uh.induct)
  case reachable_uh_empty
  show ?case by (simp add: emptyUploadHeap_def)
next
  case (reachable_uh_push uh uuc)
  then show ?case by (auto simp: managedPush_def Let_def)
next
  case (reachable_uh_pop uh)
  obtain c uh' where p: "managedPop uh = (c, uh')" by (cases "managedPop uh")
  show ?case
  proof (cases c)
    case None
    with p managedPop_None have "uh' = uh" by blast
    with p reachable_uh_pop show ?thesis by simp
  next
    case (Some uc)
    with p managedPop_sets [of uh uc uh'] reachable_uh_pop show ?thesis by auto
  qed
next
  case (reachable_uh_done uh cid)
  then show ?case by (auto simp: managedMarkRepairDone_def Let_def)
qed

section \<open>Results about the contract manager\<close>

subsection \<open>\<^verbatim>\<open>deleteSector\<close> and the children of a sector\<close>

lemma newSSLs_loop_filter: "newSSLs_loop sid ssls = filter (\<lambda>ssl. parent ssl \<noteq> sid) ssls"
  by (induction ssls) auto

lemma purged_idem: "purged sid (purged sid entry) = purged sid entry"
  by (auto simp: purged_def split: option.splits)

lemma deleteSector_child_sub:
  "subSectorLocations (deleteSector_child sid x cm) =
     (subSectorLocations cm)(x := purged sid (subSectorLocations cm x))"
  by (auto simp: deleteSector_child_def purged_def newSSLs_loop_filter Let_def fun_eq_iff
           split: option.splits)

lemma deleteSector_child_primary:
  "sectorLocations (deleteSector_child sid x cm) = sectorLocations cm"
  by (auto simp: deleteSector_child_def Let_def split: option.splits)

lemma fold_child_primary:
  "sectorLocations (fold (deleteSector_child sid) cs cm) = sectorLocations cm"
  by (induction cs arbitrary: cm) (simp_all add: deleteSector_child_primary)

lemma fold_child_sub:
  "subSectorLocations (fold (deleteSector_child sid) cs cm) c =
     (if c \<in> set cs then purged sid (subSectorLocations cm c) else subSectorLocations cm c)"
proof (induction cs arbitrary: cm)
  case Nil
  show ?case by simp
next
  case (Cons x xs)
  show ?case
    by (simp add: Cons.IH deleteSector_child_sub purged_idem)
qed

lemma deleteSector_sub:
  "subSectorLocations (deleteSector cm sid) c =
     (case sectorLocations cm sid of
        None \<Rightarrow> subSectorLocations cm c
      | Some sl \<Rightarrow> if c \<in> set (children sl) then purged sid (subSectorLocations cm c)
                   else subSectorLocations cm c)"
  by (simp add: deleteSector_def Let_def fold_child_sub split: option.splits)

lemma deleteSector_primary:
  "sectorLocations (deleteSector cm sid) = (sectorLocations cm)(sid := None)"
  by (auto simp: deleteSector_def Let_def fold_child_primary fun_eq_iff split: option.splits)

lemma purged_Some:
  "purged sid entry = Some ssls' \<Longrightarrow>
     ssls' \<noteq> [] \<and> (\<exists>ssls. entry = Some ssls \<and> ssls' = filter (\<lambda>ssl. parent ssl \<noteq> sid) ssls)"
  by (auto simp: purged_def split: option.splits if_splits)

lemma deleteSector_post:
  assumes inv: "children_complete cm"
    and sub: "subSectorLocations (deleteSector cm sid) c = Some ssls'"
  shows "ssls' \<noteq> [] \<and> (\<forall>ssl \<in> set ssls'. parent ssl \<noteq> sid)
         \<and> (\<exists>ssls. subSectorLocations cm c = Some ssls \<and> set ssls' \<subseteq> set ssls)"
proof (cases "sectorLocations cm sid")
  case None
  with sub have orig: "subSectorLocations cm c = Some ssls'" by (simp add: deleteSector_sub)
  with inv have ne: "ssls' \<noteq> []"
    and par: "\<forall>ssl \<in> set ssls'. \<exists>sl. sectorLocations cm (parent ssl) = Some sl \<and> c \<in> set (children sl)"
    unfolding children_complete_def by blast+
  from par None have "\<forall>ssl \<in> set ssls'. parent ssl \<noteq> sid" by auto
  with ne orig show ?thesis by auto
next
  case (Some sl)
  show ?thesis
  proof (cases "c \<in> set (children sl)")
    case True
    with sub Some have "purged sid (subSectorLocations cm c) = Some ssls'"
      by (simp add: deleteSector_sub)
    from purged_Some [OF this] show ?thesis by auto
  next
    case False
    with sub Some have orig: "subSectorLocations cm c = Some ssls'"
      by (simp add: deleteSector_sub)
    with inv have ne: "ssls' \<noteq> []"
      and par: "\<forall>ssl \<in> set ssls'. \<exists>sl. sectorLocations cm (parent ssl) = Some sl \<and> c \<in> set (children sl)"
      unfolding children_complete_def by blast+
    from par Some False have "\<forall>ssl \<in> set ssls'. parent ssl \<noteq> sid" by auto
    with ne orig show ?thesis by auto
  qed
qed

lemma children_complete_deleteSector:
  assumes inv: "children_complete cm"
  shows "children_complete (deleteSector cm sid)"
  unfolding children_complete_def
proof (intro allI impI)
  fix c ssls'
  assume sub: "subSectorLocations (deleteSector cm sid) c = Some ssls'"
  from deleteSector_post [OF inv sub] obtain ssls where
    ne: "ssls' \<noteq> []" and np: "\<forall>ssl \<in> set ssls'. parent ssl \<noteq> sid"
    and orig: "subSectorLocations cm c = Some ssls" and ss: "set ssls' \<subseteq> set ssls"
    by blast
  from inv orig have
    par: "\<forall>ssl \<in> set ssls. \<exists>sl. sectorLocations cm (parent ssl) = Some sl \<and> c \<in> set (children sl)"
    unfolding children_complete_def by blast
  have "\<forall>ssl \<in> set ssls'. \<exists>sl. sectorLocations (deleteSector cm sid) (parent ssl) = Some sl
          \<and> c \<in> set (children sl)"
    using par np ss by (auto simp: deleteSector_primary)
  with ne show "ssls' \<noteq> [] \<and> (\<forall>ssl \<in> set ssls'. \<exists>sl.
      sectorLocations (deleteSector cm sid) (parent ssl) = Some sl \<and> c \<in> set (children sl))"
    by blast
qed

lemma managedReadPartialSector_maps:
  "sectorLocations (snd (managedReadPartialSector cm r sl off len)) = sectorLocations cm
   \<and> subSectorLocations (snd (managedReadPartialSector cm r sl off len)) = subSectorLocations cm"
  by (auto simp: managedReadPartialSector_def split: option.splits sum.splits)

lemma children_complete_cong:
  "sectorLocations cm' = sectorLocations cm \<Longrightarrow> subSectorLocations cm' = subSectorLocations cm \<Longrightarrow>
   children_complete cm' = children_complete cm"
  by (simp add: children_complete_def)

lemma children_complete_register:
  assumes inv: "children_complete cm"
    and sl: "sectorLocations cm sid = Some sl"
    and sub': "subSectorLocations cm' =
       (subSectorLocations cm)(subID \<mapsto>
          (case subSectorLocations cm subID of None \<Rightarrow> [] | Some l \<Rightarrow> l) @
          [\<lparr>offset = off, length_ssl = len, parent = sid\<rparr>])"
    and prim': "sectorLocations cm' =
       (sectorLocations cm)(sid \<mapsto> sl\<lparr>children := List.insert subID (children sl)\<rparr>)"
  shows "children_complete cm'"
  unfolding children_complete_def
proof (intro allI impI)
  fix c ssls
  assume a: "subSectorLocations cm' c = Some ssls"
  have keep: "\<exists>sl'. sectorLocations cm' p = Some sl' \<and> c' \<in> set (children sl')"
    if "sectorLocations cm p = Some sl0" "c' \<in> set (children sl0)" for p sl0 c'
    using that sl by (cases "p = sid") (auto simp: prim')
  have new: "\<exists>sl'. sectorLocations cm' sid = Some sl' \<and> subID \<in> set (children sl')"
    by (simp add: prim')
  show "ssls \<noteq> [] \<and> (\<forall>ssl \<in> set ssls. \<exists>sl.
          sectorLocations cm' (parent ssl) = Some sl \<and> c \<in> set (children sl))"
  proof (cases "c = subID")
    case False
    with a have orig: "subSectorLocations cm c = Some ssls" by (simp add: sub')
    with inv have "ssls \<noteq> []"
      and "\<forall>ssl \<in> set ssls. \<exists>sl. sectorLocations cm (parent ssl) = Some sl \<and> c \<in> set (children sl)"
      unfolding children_complete_def by blast+
    then show ?thesis using keep by blast
  next
    case True
    show ?thesis
    proof (cases "subSectorLocations cm subID")
      case None
      with a True have "ssls = [\<lparr>offset = off, length_ssl = len, parent = sid\<rparr>]"
        by (simp add: sub')
      with new True show ?thesis by simp
    next
      case (Some old)
      with a True have e: "ssls = old @ [\<lparr>offset = off, length_ssl = len, parent = sid\<rparr>]"
        by (simp add: sub')
      from inv Some have
        "\<forall>ssl \<in> set old. \<exists>sl. sectorLocations cm (parent ssl) = Some sl \<and> subID \<in> set (children sl)"
        unfolding children_complete_def by blast
      then have "\<forall>ssl \<in> set old. \<exists>sl. sectorLocations cm' (parent ssl) = Some sl
                   \<and> subID \<in> set (children sl)"
        using keep by blast
      with new e True show ?thesis by auto
    qed
  qed
qed



lemma SetSubSector_absent:
  "sectorLocations cm (f r) = None \<Longrightarrow> SetSubSector f g cm r off len = (Inl ErrSectorNotFound, cm)"
  by (simp add: SetSubSector_def)

lemma SetSubSector_read_failed:
  "sectorLocations cm (f r) = Some sl \<Longrightarrow>
   managedReadPartialSector cm r sl (ucast off) (ucast len) = (Inl e, cm1) \<Longrightarrow>
   SetSubSector f g cm r off len = (Inl e, cm1)"
  by (simp add: SetSubSector_def)

lemma SetSubSector_registered:
  "sectorLocations cm (f r) = Some sl \<Longrightarrow>
   managedReadPartialSector cm r sl (ucast off) (ucast len) = (Inr data, cm1) \<Longrightarrow>
   SetSubSector f g cm r off len =
     (Inr (g data),
      cm1\<lparr>subSectorLocations := (subSectorLocations cm1)(f (g data) \<mapsto>
             (case subSectorLocations cm1 (f (g data)) of None \<Rightarrow> [] | Some l \<Rightarrow> l) @
             [\<lparr>offset = off, length_ssl = len, parent = f r\<rparr>]),
          sectorLocations := (sectorLocations cm1)(f r \<mapsto>
             sl\<lparr>children := List.insert (f (g data)) (children sl)\<rparr>)\<rparr>)"
  by (simp add: SetSubSector_def Let_def)


lemma children_complete_SetSubSector:
  assumes inv: "children_complete cm"
  shows "children_complete (snd (SetSubSector f g cm r off len))"
proof (cases "sectorLocations cm (f r)")
  case None
  from SetSubSector_absent [of cm f r g off len] None inv show ?thesis by simp
next
  case (Some sl)
  obtain res cm1 where rd: "managedReadPartialSector cm r sl (ucast off) (ucast len) = (res, cm1)"
    by (cases "managedReadPartialSector cm r sl (ucast off) (ucast len)")
  from managedReadPartialSector_maps [of cm r sl "ucast off" "ucast len"] rd
  have m1: "sectorLocations cm1 = sectorLocations cm" "subSectorLocations cm1 = subSectorLocations cm"
    by simp_all
  from children_complete_cong [OF m1] inv have inv1: "children_complete cm1" by simp
  from Some m1 have sl1: "sectorLocations cm1 (f r) = Some sl" by simp
  show ?thesis
  proof (cases res)
    case (Inl e)
    with rd have "managedReadPartialSector cm r sl (ucast off) (ucast len) = (Inl e, cm1)" by simp
    with SetSubSector_read_failed [of cm f r sl off len e cm1 g] Some inv1 show ?thesis by simp
  next
    case (Inr data)
    with rd have "managedReadPartialSector cm r sl (ucast off) (ucast len) = (Inr data, cm1)" by simp
    with SetSubSector_registered [of cm f r sl off len data cm1 g] Some
    have reg: "SetSubSector f g cm r off len =
     (Inr (g data),
      cm1\<lparr>subSectorLocations := (subSectorLocations cm1)(f (g data) \<mapsto>
             (case subSectorLocations cm1 (f (g data)) of None \<Rightarrow> [] | Some l \<Rightarrow> l) @
             [\<lparr>offset = off, length_ssl = len, parent = f r\<rparr>]),
          sectorLocations := (sectorLocations cm1)(f r \<mapsto>
             sl\<lparr>children := List.insert (f (g data)) (children sl)\<rparr>)\<rparr>)"
      by blast
    show ?thesis
      unfolding reg snd_conv
      by (rule children_complete_register [OF inv1 sl1, where subID = "f (g data)" and off = off and len = len]) simp_all
  qed
qed


lemma reachable_children_complete:
  "reachable_cm f g cm \<Longrightarrow> children_complete cm"
proof (induction rule: reachable_cm.induct)
  case (reachable_initial cm)
  then show ?case by (simp add: initial_cm_def children_complete_def)
next
  case (reachable_SetSubSector cm r off len)
  then show ?case by (simp add: children_complete_SetSubSector)
next
  case (reachable_deleteSector cm sid)
  then show ?case by (simp add: children_complete_deleteSector)
qed

text \<open>
  Claim C8: in every state reachable through \<^verbatim>\<open>SetSubSector\<close> and \<^verbatim>\<open>deleteSector\<close>,
  after \<^verbatim>\<open>deleteSector(id)\<close> the id is absent from \<^verbatim>\<open>sectorLocations\<close>, no entry of
  \<^verbatim>\<open>subSectorLocations\<close> holds a location whose parent is the id, and no entry is an
  empty list.
\<close>

theorem deleteSector_purges_children:
  assumes "reachable_cm f g cm"
  shows "sectorLocations (deleteSector cm sid) sid = None
         \<and> (\<forall>c ssls. subSectorLocations (deleteSector cm sid) c = Some ssls \<longrightarrow>
               ssls \<noteq> [] \<and> (\<forall>ssl \<in> set ssls. parent ssl \<noteq> sid))"
  using deleteSector_post [OF reachable_children_complete [OF assms]]
  by (simp add: deleteSector_primary)

lemma cm2_sub: "subSectorLocations cm2 103 = Some [\<lparr>offset = 8, length_ssl = 3, parent = 1\<rparr>, \<lparr>offset = 16, length_ssl = 3, parent = 2\<rparr>]"
  by (simp add: cm2_def cm0_def SetSubSector_def managedReadPartialSector_def readPartialSector_def
      SectorSize_def maxAlloc_def sid0_def mr0_def file0_def folder0_def)

theorem deleteSector_purges_children_witness:
  "reachable_cm sid0 mr0 cm2
   \<and> subSectorLocations cm2 103
       = Some [\<lparr>offset = 8, length_ssl = 3, parent = 1\<rparr>, \<lparr>offset = 16, length_ssl = 3, parent = 2\<rparr>]
   \<and> sectorLocations (deleteSector cm2 1) 1 = None
   \<and> subSectorLocations (deleteSector cm2 1) 103 = Some [\<lparr>offset = 16, length_ssl = 3, parent = 2\<rparr>]
   \<and> subSectorLocations (deleteSector (deleteSector cm2 1) 2) 103 = None"
proof -
  have "initial_cm cm0" by (simp add: initial_cm_def cm0_def)
  then have "reachable_cm sid0 mr0 cm0" by (rule reachable_initial)
  then have "reachable_cm sid0 mr0 (snd (SetSubSector sid0 mr0 cm0 1 8 3))"
    by (rule reachable_SetSubSector)
  then have "reachable_cm sid0 mr0 (snd (SetSubSector sid0 mr0 (snd (SetSubSector sid0 mr0 cm0 1 8 3)) 2 16 3))"
    by (rule reachable_SetSubSector)
  then have r: "reachable_cm sid0 mr0 cm2" by (simp only: cm2_def)
  have prim: "sectorLocations cm2 1 = Some \<lparr>index_sl = 0, storageFolder = 0, count = 1, children = [103]\<rparr>"
    "sectorLocations cm2 2 = Some \<lparr>index_sl = 1, storageFolder = 0, count = 1, children = [103]\<rparr>"
    by (simp_all add: cm2_def cm0_def SetSubSector_def managedReadPartialSector_def readPartialSector_def
      SectorSize_def maxAlloc_def sid0_def mr0_def file0_def folder0_def)
  have d1: "subSectorLocations (deleteSector cm2 1) 103 = Some [\<lparr>offset = 16, length_ssl = 3, parent = 2\<rparr>]"
    by (simp add: deleteSector_sub prim cm2_sub purged_def)
  have p1: "sectorLocations (deleteSector cm2 1) 2 = Some \<lparr>index_sl = 1, storageFolder = 0, count = 1, children = [103]\<rparr>"
    by (simp add: deleteSector_primary prim)
  have d2: "subSectorLocations (deleteSector (deleteSector cm2 1) 2) 103 = None"
    using deleteSector_sub [of "deleteSector cm2 1" 2 103] by (simp add: p1 d1 purged_def)
  from deleteSector_purges_children [OF r, of 1] cm2_sub d1 d2 r show ?thesis by simp
qed

subsection \<open>\<^verbatim>\<open>ReadSector\<close>\<close>

lemmas ReadSector_defs = ReadSector_def sectorLocations_get_def subSectorLocations_get_def
  zero_sectorLocation_def zero_subSectorLocation_def

text \<open>When the read step fails with \<^verbatim>\<open>ErrSectorNotFound\<close>, and what it reads otherwise.\<close>

lemma managedReadPartialSector_NotFound_iff:
  "(fst (managedReadPartialSector cm r sl off len) = Inl ErrSectorNotFound)
     = (\<not> stopped cm
        \<and> (case storageFolders cm (storageFolder sl) of
              None \<Rightarrow> True | Some sf \<Rightarrow> atomicUnavailable sf = 1))"
  by (auto simp: managedReadPartialSector_def split: option.splits sum.splits)

lemma managedReadPartialSector_reads:
  assumes "\<not> stopped cm" and "storageFolders cm (storageFolder sl) = Some sf"
    and "atomicUnavailable sf \<noteq> 1" and "off + len \<le> SectorSize" and "unat len \<le> maxAlloc"
    and "sectorFile sf (sint (ucast (index_sl sl) * SectorSize + off)) (unat len) = Some b"
  shows "fst (managedReadPartialSector cm r sl off len) = Inr b"
  using assms by (simp add: managedReadPartialSector_def readPartialSector_def not_less)

text \<open>
  Claim C5, as amended. For a root with id \<open>f r\<close>:
  \<^item> when the id is in neither map, \<^verbatim>\<open>ReadSector\<close> fails with \<^verbatim>\<open>ErrSectorNotFound\<close>;
  \<^item> when the id is in the primary map and not in the sub sector map, it reads the full
    sector (offset 0, length \<^verbatim>\<open>SectorSize\<close>) at the recorded location;
  \<^item> when the id is absent from the primary map and present in the sub sector map,
    it resolves the first sub sector location through its parent in the primary map
    and reads \<open>length\<close> bytes at \<open>offset\<close> of the parent's location;
  \<^item> the read, in both cases, fails with \<^verbatim>\<open>ErrSectorNotFound\<close> exactly when the
    contract manager is running and the storage folder of the location is missing or
    marked unavailable; so \<^verbatim>\<open>ErrSectorNotFound\<close> is not limited to an id in neither
    map;
  \<^item> on a running contract manager and an available folder the read returns what the
    folder's sector file gives for the range: \<open>length\<close> bytes at position
    \<open>index * SectorSize + offset\<close>.
\<close>

theorem ReadSector_lookup_and_read:
  "(sectorLocations cm (f r) = None \<and> subSectorLocations cm (f r) = None \<longrightarrow>
      ReadSector f cm r = (Inl ErrSectorNotFound, cm))
   \<and> (\<forall>sl. sectorLocations cm (f r) = Some sl \<and> subSectorLocations cm (f r) = None \<longrightarrow>
         ReadSector f cm r = managedReadPartialSector cm r sl 0 SectorSize)
   \<and> (\<forall>ssl rest p. sectorLocations cm (f r) = None
          \<and> subSectorLocations cm (f r) = Some (ssl # rest)
          \<and> sectorLocations cm (parent ssl) = Some p \<longrightarrow>
         ReadSector f cm r =
           managedReadPartialSector cm r p (ucast (offset ssl)) (ucast (length_ssl ssl)))
   \<and> (\<forall>(sl::sectorLocation) off len.
         (fst (managedReadPartialSector cm r sl off len) = Inl ErrSectorNotFound)
         = (\<not> stopped cm
            \<and> (case storageFolders cm (storageFolder sl) of
                  None \<Rightarrow> True | Some sf \<Rightarrow> atomicUnavailable sf = 1)))
   \<and> (\<forall>(sl::sectorLocation) sf off len b.
         \<not> stopped cm \<and> storageFolders cm (storageFolder sl) = Some sf
         \<and> atomicUnavailable sf \<noteq> 1 \<and> off + len \<le> SectorSize \<and> unat len \<le> maxAlloc
         \<and> sectorFile sf (sint (ucast (index_sl sl) * SectorSize + off)) (unat len) = Some b \<longrightarrow>
         fst (managedReadPartialSector cm r sl off len) = Inr b)"
proof (intro conjI allI impI)
  assume "sectorLocations cm (f r) = None \<and> subSectorLocations cm (f r) = None"
  then show "ReadSector f cm r = (Inl ErrSectorNotFound, cm)"
    by (simp add: ReadSector_defs)
next
  fix sl
  assume "sectorLocations cm (f r) = Some sl \<and> subSectorLocations cm (f r) = None"
  then show "ReadSector f cm r = managedReadPartialSector cm r sl 0 SectorSize"
    by (simp add: ReadSector_defs)
next
  fix ssl rest p
  assume "sectorLocations cm (f r) = None
          \<and> subSectorLocations cm (f r) = Some (ssl # rest)
          \<and> sectorLocations cm (parent ssl) = Some p"
  then show "ReadSector f cm r =
           managedReadPartialSector cm r p (ucast (offset ssl)) (ucast (length_ssl ssl))"
    by (simp add: ReadSector_defs)
next
  fix sl :: sectorLocation and off len
  show "(fst (managedReadPartialSector cm r sl off len) = Inl ErrSectorNotFound)
         = (\<not> stopped cm
            \<and> (case storageFolders cm (storageFolder sl) of
                  None \<Rightarrow> True | Some sf \<Rightarrow> atomicUnavailable sf = 1))"
    by (rule managedReadPartialSector_NotFound_iff)
next
  fix sl :: sectorLocation and sf off len b
  assume "\<not> stopped cm \<and> storageFolders cm (storageFolder sl) = Some sf
         \<and> atomicUnavailable sf \<noteq> 1 \<and> off + len \<le> SectorSize \<and> unat len \<le> maxAlloc
         \<and> sectorFile sf (sint (ucast (index_sl sl) * SectorSize + off)) (unat len) = Some b"
  then show "fst (managedReadPartialSector cm r sl off len) = Inr b"
    by (simp add: managedReadPartialSector_reads)
qed

lemma upt_0_3: "[0..<3] = [0, Suc 0, 2]"
  by (simp add: numeral_3_eq_3 numeral_2_eq_2)

lemma SectorSize_allocatable: "unat SectorSize \<le> maxAlloc"
  by (simp add: SectorSize_def maxAlloc_def)

theorem ReadSector_lookup_and_read_witness:
  "(sectorLocations cm0 (sid0 7) = None \<and> subSectorLocations cm0 (sid0 7) = None)
   \<and> ReadSector sid0 cm0 7 = (Inl ErrSectorNotFound, cm0)
   \<and> (sectorLocations cm0 (sid0 1) = Some \<lparr>index_sl = 0, storageFolder = 0, count = 1, children = []\<rparr>
        \<and> subSectorLocations cm0 (sid0 1) = None)
   \<and> (\<not> stopped cm0 \<and> storageFolders cm0 0 = Some folder0 \<and> atomicUnavailable folder0 \<noteq> 1
        \<and> 0 + SectorSize \<le> SectorSize \<and> unat SectorSize \<le> maxAlloc)
   \<and> fst (ReadSector sid0 cm0 1) = Inr (map (\<lambda>k. word_of_int (int k)) [0..<unat SectorSize])
   \<and> (sectorLocations cm2 (sid0 103) = None
        \<and> subSectorLocations cm2 (sid0 103)
            = Some [\<lparr>offset = 8, length_ssl = 3, parent = 1\<rparr>, \<lparr>offset = 16, length_ssl = 3, parent = 2\<rparr>]
        \<and> sectorLocations cm2 1 = Some \<lparr>index_sl = 0, storageFolder = 0, count = 1, children = [103]\<rparr>)
   \<and> fst (ReadSector sid0 cm2 103) = Inr [8, 9, 10]
   \<and> (sectorLocations cm_unavailable (sid0 1)
          = Some \<lparr>index_sl = 0, storageFolder = 0, count = 1, children = []\<rparr>
        \<and> subSectorLocations cm_unavailable (sid0 1) = None)
   \<and> fst (ReadSector sid0 cm_unavailable 1) = Inl ErrSectorNotFound"
proof -
  let ?sl = "\<lparr>index_sl = 0, storageFolder = 0, count = 1, children = []\<rparr>"
  let ?p = "\<lparr>index_sl = 0, storageFolder = 0, count = 1, children = [103]\<rparr>"
  let ?ssl = "\<lparr>offset = 8, length_ssl = 3, parent = 1\<rparr>"
  let ?rest = "[\<lparr>offset = 16, length_ssl = 3, parent = 2\<rparr>]"
  note t0 = ReadSector_lookup_and_read [of cm0 sid0 7]
  note t1 = ReadSector_lookup_and_read [of cm0 sid0 1]
  note t2 = ReadSector_lookup_and_read [of cm2 sid0 103]
  note t3 = ReadSector_lookup_and_read [of cm_unavailable sid0 1]
  have a: "sectorLocations cm0 (sid0 7) = None \<and> subSectorLocations cm0 (sid0 7) = None"
    by (simp add: cm0_def sid0_def)
  have b: "sectorLocations cm0 (sid0 1) = Some ?sl \<and> subSectorLocations cm0 (sid0 1) = None"
    by (simp add: cm0_def sid0_def)
  have b': "\<not> stopped cm0 \<and> storageFolders cm0 0 = Some folder0 \<and> atomicUnavailable folder0 \<noteq> 1
        \<and> 0 + SectorSize \<le> SectorSize \<and> unat SectorSize \<le> maxAlloc"
    by (simp add: cm0_def folder0_def SectorSize_allocatable)
  have bf: "sectorFile folder0 (sint (ucast (index_sl ?sl) * SectorSize + 0)) (unat SectorSize)
              = Some (map (\<lambda>k. word_of_int (int k)) [0..<unat SectorSize])"
    by (simp add: folder0_def file0_def)
  have c: "sectorLocations cm2 (sid0 103) = None
        \<and> subSectorLocations cm2 (sid0 103) = Some (?ssl # ?rest)
        \<and> sectorLocations cm2 (parent ?ssl) = Some ?p"
    by (simp add: cm2_def cm0_def SetSubSector_def managedReadPartialSector_def readPartialSector_def
      SectorSize_def maxAlloc_def sid0_def mr0_def file0_def folder0_def)
  have c': "\<not> stopped cm2
        \<and> storageFolders cm2 0 = Some (folder0\<lparr>atomicSuccessfulReads := 2\<rparr>)"
    by (simp add: cm2_def cm0_def SetSubSector_def managedReadPartialSector_def readPartialSector_def
      SectorSize_def maxAlloc_def sid0_def mr0_def file0_def folder0_def)
  have d: "sectorLocations cm_unavailable (sid0 1) = Some ?sl
        \<and> subSectorLocations cm_unavailable (sid0 1) = None"
    by (simp add: cm_unavailable_def sid0_def)
  have d': "\<not> stopped cm_unavailable
        \<and> (case storageFolders cm_unavailable (storageFolder ?sl) of
              None \<Rightarrow> True | Some sf \<Rightarrow> atomicUnavailable sf = 1)"
    by (simp add: cm_unavailable_def)
  have ra: "ReadSector sid0 cm0 7 = (Inl ErrSectorNotFound, cm0)"
    using t0 a by blast
  have "ReadSector sid0 cm0 1 = managedReadPartialSector cm0 1 ?sl 0 SectorSize"
    using t1 b by blast
  moreover have "fst (managedReadPartialSector cm0 1 ?sl 0 SectorSize)
      = Inr (map (\<lambda>k. word_of_int (int k)) [0..<unat SectorSize])"
    using t1 [THEN conjunct2, THEN conjunct2, THEN conjunct2, THEN conjunct2, rule_format,
              of ?sl folder0 0 SectorSize "map (\<lambda>k. word_of_int (int k)) [0..<unat SectorSize]"]
          b' bf
    by simp
  ultimately have rb: "fst (ReadSector sid0 cm0 1)
      = Inr (map (\<lambda>k. word_of_int (int k)) [0..<unat SectorSize])"
    by simp
  have "ReadSector sid0 cm2 103
          = managedReadPartialSector cm2 103 ?p (ucast (offset ?ssl)) (ucast (length_ssl ?ssl))"
    using t2 c by blast
  moreover have "fst (managedReadPartialSector cm2 103 ?p (ucast (offset ?ssl)) (ucast (length_ssl ?ssl)))
      = Inr [8, 9, 10]"
    using t2 [THEN conjunct2, THEN conjunct2, THEN conjunct2, THEN conjunct2, rule_format,
              of ?p "folder0\<lparr>atomicSuccessfulReads := 2\<rparr>" "ucast (offset ?ssl)"
                 "ucast (length_ssl ?ssl)" "[8, 9, 10]"]
          c'
    by (simp add: SectorSize_def maxAlloc_def folder0_def file0_def upt_0_3)
  ultimately have rc: "fst (ReadSector sid0 cm2 103) = Inr [8, 9, 10]"
    by simp
  have "ReadSector sid0 cm_unavailable 1 = managedReadPartialSector cm_unavailable 1 ?sl 0 SectorSize"
    using t3 d by blast
  moreover have "fst (managedReadPartialSector cm_unavailable 1 ?sl 0 SectorSize) = Inl ErrSectorNotFound"
    using t3 d' by blast
  ultimately have rd: "fst (ReadSector sid0 cm_unavailable 1) = Inl ErrSectorNotFound"
    by simp
  from a b b' c d ra rb rc rd show ?thesis by simp
qed

text \<open>
  Claim C5 as stated (the full sector is read whenever the id is in the primary map,
  and \<^verbatim>\<open>ErrSectorNotFound\<close> is returned exactly when the id is in neither map) fails
  when the storage folder of the sector is marked unavailable: the id is in the
  primary map and in no other, nothing is read (the state, with the folder's read
  counters, is unchanged) and the error is \<^verbatim>\<open>ErrSectorNotFound\<close>.
\<close>

theorem ReadSector_NotFound_id_present_counterexample:
  "sectorLocations cm_unavailable (sid0 1)
     = Some \<lparr>index_sl = 0, storageFolder = 0, count = 1, children = []\<rparr>
   \<and> subSectorLocations cm_unavailable (sid0 1) = None
   \<and> ReadSector sid0 cm_unavailable 1 = (Inl ErrSectorNotFound, cm_unavailable)"
  by (simp add: ReadSector_defs cm_unavailable_def sid0_def managedReadPartialSector_def folder0_def)

text \<open>
  The states that \<^verbatim>\<open>ReadSector\<close> reports with \<^verbatim>\<open>log.Critical\<close> are outside the claim
  above: an id in both maps, and a sub sector whose parent is not in the primary map.
  There the code goes by the sub sector entry. No state reachable through
  \<^verbatim>\<open>SetSubSector\<close> and \<^verbatim>\<open>deleteSector\<close> has a sub sector without its parent.
\<close>

lemma ReadSector_reported_states:
  "subSectorLocations cm (f r) = Some (ssl # rest) \<Longrightarrow> sectorLocations cm (f r) = Some sl \<Longrightarrow>
   sectorLocations cm (parent ssl) = Some p \<Longrightarrow>
     ReadSector f cm r =
       managedReadPartialSector
         (cm\<lparr>critical_log := critical_log cm @
              [''found sector id in sectorLocations and smallSectorLocations'']\<rparr>)
         r p (ucast (offset ssl)) (ucast (length_ssl ssl))"
  "subSectorLocations cm (f r) = Some (ssl # rest) \<Longrightarrow> sectorLocations cm (parent ssl) = None \<Longrightarrow>
     fst (ReadSector f cm r) = Inl ErrSubSectorWithoutParent"
  "subSectorLocations cm (f r) = Some [] \<Longrightarrow>
     fst (ReadSector f cm r) = Inl ErrSubSectorWithoutParent"
  by (cases "sectorLocations cm (f r)"; simp add: ReadSector_defs)+

lemma reachable_sub_sector_has_parent:
  assumes "reachable_cm f g cm" and "subSectorLocations cm c = Some ssls"
  shows "ssls \<noteq> [] \<and> sectorLocations cm (parent (ssls ! 0)) \<noteq> None"
proof -
  from reachable_children_complete [OF assms(1)] assms(2)
  have ne: "ssls \<noteq> []"
    and par: "\<forall>ssl \<in> set ssls. \<exists>sl. sectorLocations cm (parent ssl) = Some sl \<and> c \<in> set (children sl)"
    unfolding children_complete_def by blast+
  from ne have "ssls ! 0 \<in> set ssls" by simp
  with par ne show ?thesis by blast
qed

end
